theory Spec2Isabelle
  imports Main "HOL-Library.Sublist"
begin

section \<open>MEDI-360: the rule-based symptom classifier\<close>

text \<open>
  A shallow embedding of \<^verbatim>\<open>services/medicalAI.service.js\<close> (class
  \<^verbatim>\<open>MedicalAIService\<close>) and of the helper \<^verbatim>\<open>extractSymptoms\<close> of the chat
  controller. JavaScript strings are modelled as \<^typ>\<open>string\<close>; case mapping and
  white space are the ASCII ones, every other character is left alone by
  \<^verbatim>\<open>toLowerCase\<close> and is not white space for \<^verbatim>\<open>trim\<close>.
\<close>

subsection \<open>Strings\<close>

definition lower_char :: "char \<Rightarrow> char" where
  "lower_char c =
     (case map_of (zip ''ABCDEFGHIJKLMNOPQRSTUVWXYZ'' ''abcdefghijklmnopqrstuvwxyz'') c of
        Some d \<Rightarrow> d
      | None \<Rightarrow> c)"

definition toLowerCase :: "string \<Rightarrow> string" where
  "toLowerCase s = map lower_char s"

definition is_space :: "char \<Rightarrow> bool" where
  "is_space c = (c \<in> set [CHR 0x09, CHR 0x0A, CHR 0x0B, CHR 0x0C, CHR 0x0D, CHR '' ''])"

definition trim :: "string \<Rightarrow> string" where
  "trim s = rev (dropWhile is_space (rev (dropWhile is_space s)))"

text \<open>\<^verbatim>\<open>s.startsWith(k)\<close>, used to write \<^verbatim>\<open>s.includes(k)\<close> by recursion.\<close>

fun startsWith :: "string \<Rightarrow> string \<Rightarrow> bool" where
  "startsWith s [] = True"
| "startsWith [] (k # ks) = False"
| "startsWith (c # cs) (k # ks) = (c = k \<and> startsWith cs ks)"

text \<open>\<^verbatim>\<open>s.includes(k)\<close>: \<open>k\<close> occurs in \<open>s\<close> at some position; the empty string
  occurs in every string.\<close>

fun str_includes :: "string \<Rightarrow> string \<Rightarrow> bool" where
  "str_includes [] k = (k = [])"
| "str_includes (c # cs) k = (startsWith (c # cs) k \<or> str_includes cs k)"

subsection \<open>The knowledge base\<close>

datatype severity_tier = Low | Moderate | High | Emergency

record symptomData =
  categories :: "string list"
  entry_severity :: severity_tier
  emergency :: bool
  relatedConditions :: "string list"

text \<open>\<^verbatim>\<open>symptomDatabase\<close>: an object literal; \<^verbatim>\<open>Object.entries\<close> lists its
  string keys in the order of the literal, so the table is an association list.\<close>

definition symptomDatabase :: "(string \<times> symptomData) list" where
  "symptomDatabase =
    [(''chest pain'',
        \<lparr>categories = [''cardiovascular''], entry_severity = High, emergency = True,
         relatedConditions = [''heart attack'', ''angina'', ''pulmonary embolism'']\<rparr>),
     (''shortness of breath'',
        \<lparr>categories = [''respiratory'', ''cardiovascular''], entry_severity = Moderate,
         emergency = False,
         relatedConditions = [''asthma'', ''COPD'', ''anxiety'']\<rparr>),
     (''irregular heartbeat'',
        \<lparr>categories = [''cardiovascular''], entry_severity = Moderate, emergency = False,
         relatedConditions = [''arrhythmia'', ''atrial fibrillation'']\<rparr>),
     (''severe headache'',
        \<lparr>categories = [''neurological''], entry_severity = Moderate, emergency = False,
         relatedConditions = [''migraine'', ''tension headache'', ''cluster headache'']\<rparr>),
     (''sudden confusion'',
        \<lparr>categories = [''neurological''], entry_severity = High, emergency = True,
         relatedConditions = [''stroke'', ''seizure'', ''hypoglycemia'']\<rparr>),
     (''dizziness'',
        \<lparr>categories = [''neurological'', ''cardiovascular''], entry_severity = Low,
         emergency = False,
         relatedConditions = [''vertigo'', ''low blood pressure'', ''dehydration'']\<rparr>),
     (''cough'',
        \<lparr>categories = [''respiratory''], entry_severity = Low, emergency = False,
         relatedConditions = [''common cold'', ''bronchitis'', ''pneumonia'']\<rparr>),
     (''fever'',
        \<lparr>categories = [''general'', ''infection''], entry_severity = Moderate,
         emergency = False,
         relatedConditions = [''infection'', ''flu'', ''viral illness'']\<rparr>),
     (''difficulty breathing'',
        \<lparr>categories = [''respiratory''], entry_severity = High, emergency = True,
         relatedConditions = [''asthma attack'', ''pneumonia'', ''allergic reaction'']\<rparr>),
     (''nausea'',
        \<lparr>categories = [''gastrointestinal''], entry_severity = Low, emergency = False,
         relatedConditions = [''gastritis'', ''food poisoning'', ''pregnancy'']\<rparr>),
     (''abdominal pain'',
        \<lparr>categories = [''gastrointestinal''], entry_severity = Moderate, emergency = False,
         relatedConditions = [''gastritis'', ''appendicitis'', ''kidney stones'']\<rparr>),
     (''vomiting'',
        \<lparr>categories = [''gastrointestinal''], entry_severity = Moderate, emergency = False,
         relatedConditions = [''gastroenteritis'', ''food poisoning'', ''migraine'']\<rparr>),
     (''fatigue'',
        \<lparr>categories = [''general''], entry_severity = Low, emergency = False,
         relatedConditions = [''anemia'', ''depression'', ''sleep disorder'']\<rparr>),
     (''body aches'',
        \<lparr>categories = [''general''], entry_severity = Low, emergency = False,
         relatedConditions = [''flu'', ''viral infection'', ''fibromyalgia'']\<rparr>),
     (''loss of consciousness'',
        \<lparr>categories = [''neurological''], entry_severity = Emergency, emergency = True,
         relatedConditions = [''seizure'', ''stroke'', ''cardiac arrest'']\<rparr>)]"

definition emergencySymptoms :: "string list" where
  "emergencySymptoms =
    [''chest pain'', ''difficulty breathing'', ''sudden confusion'',
     ''loss of consciousness'', ''severe bleeding'', ''stroke symptoms'',
     ''severe allergic reaction'', ''suicidal thoughts'']"

subsection \<open>Emergency detection and table lookup\<close>

text \<open>\<^verbatim>\<open>checkEmergency\<close>: some symptom includes some emergency phrase.\<close>

definition checkEmergency :: "string list \<Rightarrow> bool" where
  "checkEmergency symptoms =
     list_ex (\<lambda>symptom. list_ex (\<lambda>emergency. str_includes symptom emergency) emergencySymptoms)
       symptoms"

text \<open>The loop of \<^verbatim>\<open>findSymptomData\<close> over the entries of a table: the first
  entry whose key is included in the symptom, or includes it, is returned.\<close>

fun findIn :: "(string \<times> symptomData) list \<Rightarrow> string \<Rightarrow> symptomData option" where
  "findIn [] symptom = None"
| "findIn ((key, entry) # entries) symptom =
     (if str_includes symptom key \<or> str_includes key symptom then Some entry
      else findIn entries symptom)"

definition findSymptomData :: "string \<Rightarrow> symptomData option" where
  "findSymptomData symptom = findIn symptomDatabase symptom"

subsection \<open>The health profile and the result\<close>

text \<open>The fields of the caller's health profile that the classifier reads. A field that
  is \<^verbatim>\<open>undefined\<close> is \<open>None\<close>; of the two lists only the length is read, so
  their elements are left abstract.\<close>

record ('c, 'm) healthProfile =
  age :: "int option"
  knownConditions :: "'c list option"
  currentMedications :: "'m list option"

datatype likelihood_tier = LikelihoodHigh | LikelihoodModerate

record possibleCondition =
  condition :: string
  likelihood :: likelihood_tier

text \<open>The object returned by \<^verbatim>\<open>analyzeSymptoms\<close>. The emergency response has no
  \<^verbatim>\<open>possibleConditions\<close> property and the regular one has no
  \<^verbatim>\<open>urgentAction\<close> and no \<^verbatim>\<open>emergencyNumber\<close>: an absent property is
  \<open>None\<close>.\<close>

record analysisResult =
  severity :: severity_tier
  emergencyDetected :: bool
  identifiedSymptoms :: "string list"
  possibleConditions :: "possibleCondition list option"
  urgentAction :: "string option"
  emergencyNumber :: "string option"
  recommendations :: "string list"
  disclaimer :: string

text \<open>The first recommendation of the emergency response starts with the character
  U+1F6A8, written here as the four bytes of its UTF-8 encoding.\<close>

definition sirenChar :: string where
  "sirenChar = [CHR 0xF0, CHR 0x9F, CHR 0x9A, CHR 0xA8]"

definition generateEmergencyResponse :: "string list \<Rightarrow> analysisResult" where
  "generateEmergencyResponse symptoms =
     \<lparr>severity = Emergency,
      emergencyDetected = True,
      identifiedSymptoms = symptoms,
      possibleConditions = None,
      urgentAction = Some ''CALL EMERGENCY SERVICES IMMEDIATELY'',
      emergencyNumber = Some ''108 (India) or local emergency number'',
      recommendations =
        [sirenChar @
           '' Call emergency services (108) immediately'',
         ''Do not attempt to drive yourself'',
         ''Stay calm and follow dispatcher instructions'',
         ''Have someone stay with you until help arrives'',
         ''If alone, unlock your front door for emergency responders''],
      disclaimer =
        ''This is a medical emergency. Please seek immediate professional medical help.''\<rparr>"

subsection \<open>Severity\<close>

text \<open>The body of the \<^verbatim>\<open>forEach\<close> callback of \<^verbatim>\<open>calculateSeverity\<close>, on the
  two variables it updates. Its \<^verbatim>\<open>return 'emergency'\<close> returns from the callback:
  the iteration ends with both variables unchanged and the loop goes on.\<close>

fun severityStep :: "string \<Rightarrow> severity_tier \<times> nat \<Rightarrow> severity_tier \<times> nat" where
  "severityStep symptom (maxSeverity, severityScore) =
     (case findSymptomData symptom of
        None \<Rightarrow> (maxSeverity, severityScore)
      | Some symptomData \<Rightarrow>
          if entry_severity symptomData = Emergency then (maxSeverity, severityScore)
          else if entry_severity symptomData = High then (High, severityScore + 3)
          else if entry_severity symptomData = Moderate then
            (if maxSeverity = Low then Moderate else maxSeverity, severityScore + 2)
          else (maxSeverity, severityScore + 1))"

text \<open>The adjustment for the risk factors of the profile: \<^verbatim>\<open>undefined > 65\<close> is
  false.\<close>

definition profileAdjustment :: "('c, 'm) healthProfile option \<Rightarrow> nat" where
  "profileAdjustment healthProfile =
     (case healthProfile of
        None \<Rightarrow> 0
      | Some p \<Rightarrow>
          (case knownConditions p of
             None \<Rightarrow> 0
           | Some cs \<Rightarrow> if length cs > 0 then 1 else 0) +
          (case age p of
             None \<Rightarrow> 0
           | Some a \<Rightarrow> if a > 65 then 1 else 0))"

definition calculateSeverity ::
  "string list \<Rightarrow> ('c, 'm) healthProfile option \<Rightarrow> severity_tier" where
  "calculateSeverity symptoms healthProfile =
     (case fold severityStep symptoms (Low, 0) of
        (maxSeverity, severityScore0) \<Rightarrow>
          let severityScore = severityScore0 + profileAdjustment healthProfile in
          if severityScore \<ge> 5 then High
          else if severityScore \<ge> 3 then Moderate
          else maxSeverity)"

subsection \<open>Possible conditions\<close>

text \<open>A JavaScript \<^verbatim>\<open>Map\<close> keeps its keys in insertion order: \<^verbatim>\<open>set\<close> on a
  key that is present replaces the value in place, on a new key it appends.\<close>

fun map_get :: "('k \<times> 'v) list \<Rightarrow> 'k \<Rightarrow> 'v option" where
  "map_get [] k = None"
| "map_get ((k', v') # m) k = (if k' = k then Some v' else map_get m k)"

fun map_set :: "('k \<times> 'v) list \<Rightarrow> 'k \<Rightarrow> 'v \<Rightarrow> ('k \<times> 'v) list" where
  "map_set [] k v = [(k, v)]"
| "map_set ((k', v') # m) k v =
     (if k' = k then (k', v) # m else (k', v') # map_set m k v)"

definition countCondition :: "string \<Rightarrow> (string \<times> nat) list \<Rightarrow> (string \<times> nat) list" where
  "countCondition cond conditionsMap =
     (let count = (case map_get conditionsMap cond of Some n \<Rightarrow> n | None \<Rightarrow> 0)
      in map_set conditionsMap cond (count + 1))"

definition countSymptom :: "string \<Rightarrow> (string \<times> nat) list \<Rightarrow> (string \<times> nat) list" where
  "countSymptom symptom conditionsMap =
     (case findSymptomData symptom of
        None \<Rightarrow> conditionsMap
      | Some symptomData \<Rightarrow> fold countCondition (relatedConditions symptomData) conditionsMap)"

text \<open>\<^verbatim>\<open>Array.prototype.sort\<close> with a comparator is a stable sort: insertion sort,
  an element going before the first one it does not compare greater than.\<close>

fun sortInsert :: "('a \<Rightarrow> 'a \<Rightarrow> int) \<Rightarrow> 'a \<Rightarrow> 'a list \<Rightarrow> 'a list" where
  "sortInsert cmp x [] = [x]"
| "sortInsert cmp x (y # ys) =
     (if cmp x y \<le> 0 then x # y # ys else y # sortInsert cmp x ys)"

definition sortBy :: "('a \<Rightarrow> 'a \<Rightarrow> int) \<Rightarrow> 'a list \<Rightarrow> 'a list" where
  "sortBy cmp xs = foldr (sortInsert cmp) xs []"

definition byFrequency :: "string \<times> nat \<Rightarrow> string \<times> nat \<Rightarrow> int" where
  "byFrequency a b = int (snd b) - int (snd a)"

definition toCondition :: "string \<times> nat \<Rightarrow> possibleCondition" where
  "toCondition e =
     \<lparr>condition = fst e,
      likelihood = (if snd e > 1 then LikelihoodHigh else LikelihoodModerate)\<rparr>"

definition identifyPossibleConditions :: "string list \<Rightarrow> possibleCondition list" where
  "identifyPossibleConditions symptoms =
     (let conditionsMap = fold countSymptom symptoms []
      in take 5 (map toCondition (sortBy byFrequency conditionsMap)))"

subsection \<open>Recommendations\<close>

text \<open>\<^verbatim>\<open>recommendations.push(x)\<close>, on the list passed along.\<close>

definition push :: "'a list \<Rightarrow> 'a \<Rightarrow> 'a list" where
  "push xs x = xs @ [x]"

definition generateRecommendations ::
  "string list \<Rightarrow> severity_tier \<Rightarrow> ('c, 'm) healthProfile option \<Rightarrow>
   possibleCondition list \<Rightarrow> string list" where
  "generateRecommendations symptoms sev healthProfile conditions =
     (let r0 = [];
          r1 =
            (if sev = High then
               push (push (push r0 ''Consult a healthcare provider within 24 hours'')
                 ''Monitor your symptoms closely'')
                 ''Avoid strenuous activities''
             else if sev = Moderate then
               push (push r0 ''Consider scheduling a doctor appointment'')
                 ''Track your symptoms over the next few days''
             else
               push (push r0 ''Monitor symptoms; they may resolve on their own'')
                 ''Maintain proper rest and hydration'');
          r2 =
            (if list_ex (\<lambda>s. str_includes s ''fever'') symptoms then
               push (push (push r1 ''Stay hydrated and rest'')
                 ''Take temperature regularly'')
                 ''Use over-the-counter fever reducers if needed''
             else r1);
          r3 =
            (if list_ex (\<lambda>s. str_includes s ''cough'') symptoms then
               push (push (push r2 ''Stay hydrated with warm fluids'')
                 ''Use a humidifier if available'')
                 ''Avoid irritants like smoke''
             else r2)
      in case healthProfile of
           None \<Rightarrow> r3
         | Some p \<Rightarrow>
             let r4 =
                   (if (case knownConditions p of None \<Rightarrow> False | Some cs \<Rightarrow> length cs > 0)
                    then
                      push (push r3
                        ''Consider how symptoms may relate to your known conditions'')
                        ''Contact your regular healthcare provider''
                    else r3);
                 r5 =
                   (if (case currentMedications p of None \<Rightarrow> False
                        | Some ms \<Rightarrow> length ms > 0)
                    then
                      push (push r4 ''Check for potential drug interactions'')
                        ''Consult pharmacist if taking new medications''
                    else r4)
             in r5)"

definition getDisclaimer :: string where
  "getDisclaimer =
     ''This system provides general medical guidance and is not a substitute for '' @
     ''professional medical advice, diagnosis, or treatment. Always seek the advice of '' @
     ''your physician or other qualified health provider with any questions you may '' @
     ''have regarding a medical condition.''"

subsection \<open>The classifier\<close>

text \<open>\<^verbatim>\<open>s.toLowerCase().trim()\<close>.\<close>

definition normalizeSymptom :: "string \<Rightarrow> string" where
  "normalizeSymptom s = trim (toLowerCase s)"

text \<open>\<^verbatim>\<open>analyzeSymptoms(symptoms, healthProfile = null, conversationHistory = [])\<close>;
  the elements of the history are never read and are left abstract.\<close>

definition analyzeSymptoms ::
  "string list \<Rightarrow> ('c, 'm) healthProfile option \<Rightarrow> 'h list \<Rightarrow> analysisResult" where
  "analyzeSymptoms symptoms healthProfile conversationHistory =
     (let normalizedSymptoms = map normalizeSymptom symptoms;
          emergencyFound = checkEmergency normalizedSymptoms
      in if emergencyFound then generateEmergencyResponse normalizedSymptoms
         else
           let sev = calculateSeverity normalizedSymptoms healthProfile;
               conditions = identifyPossibleConditions normalizedSymptoms;
               recs = generateRecommendations normalizedSymptoms sev healthProfile conditions
           in \<lparr>severity = sev,
               emergencyDetected = False,
               identifiedSymptoms = normalizedSymptoms,
               possibleConditions = Some conditions,
               urgentAction = None,
               emergencyNumber = None,
               recommendations = recs,
               disclaimer = getDisclaimer\<rparr>)"

subsection \<open>The caller's symptom extraction\<close>

text \<open>\<^verbatim>\<open>extractSymptoms\<close> of the chat controller.\<close>

definition commonSymptoms :: "string list" where
  "commonSymptoms =
     [''fever'', ''headache'', ''pain'', ''cough'', ''nausea'', ''vomiting'', ''dizzy'',
      ''tired'', ''chest pain'', ''rash'']"

definition extractSymptoms :: "string \<Rightarrow> string list" where
  "extractSymptoms message =
     filter (\<lambda>s. str_includes (toLowerCase message) s) commonSymptoms"

subsection \<open>The order of the severity tiers\<close>

text \<open>low < moderate < high < emergency.\<close>

fun tierRank :: "severity_tier \<Rightarrow> nat" where
  "tierRank Low = 0"
| "tierRank Moderate = 1"
| "tierRank High = 2"
| "tierRank Emergency = 3"

subsection \<open>The blocks of recommendations\<close>

text \<open>The strings that each branch of \<^verbatim>\<open>generateRecommendations\<close> pushes, branch
  by branch, and the two tests it makes on the profile.\<close>

definition severityBlock :: "severity_tier \<Rightarrow> string list" where
  "severityBlock sev =
     (if sev = High then
        [''Consult a healthcare provider within 24 hours'',
         ''Monitor your symptoms closely'',
         ''Avoid strenuous activities'']
      else if sev = Moderate then
        [''Consider scheduling a doctor appointment'',
         ''Track your symptoms over the next few days'']
      else
        [''Monitor symptoms; they may resolve on their own'',
         ''Maintain proper rest and hydration''])"

definition feverBlock :: "string list" where
  "feverBlock =
     [''Stay hydrated and rest'', ''Take temperature regularly'',
      ''Use over-the-counter fever reducers if needed'']"

definition coughBlock :: "string list" where
  "coughBlock =
     [''Stay hydrated with warm fluids'', ''Use a humidifier if available'',
      ''Avoid irritants like smoke'']"

definition conditionsBlock :: "string list" where
  "conditionsBlock =
     [''Consider how symptoms may relate to your known conditions'',
      ''Contact your regular healthcare provider'']"

definition medicationsBlock :: "string list" where
  "medicationsBlock =
     [''Check for potential drug interactions'',
      ''Consult pharmacist if taking new medications'']"

definition hasKnownConditions :: "('c, 'm) healthProfile option \<Rightarrow> bool" where
  "hasKnownConditions hp =
     (case hp of None \<Rightarrow> False
      | Some p \<Rightarrow> (case knownConditions p of None \<Rightarrow> False | Some cs \<Rightarrow> cs \<noteq> []))"

definition hasCurrentMedications :: "('c, 'm) healthProfile option \<Rightarrow> bool" where
  "hasCurrentMedications hp =
     (case hp of None \<Rightarrow> False
      | Some p \<Rightarrow> (case currentMedications p of None \<Rightarrow> False | Some ms \<Rightarrow> ms \<noteq> []))"

subsection \<open>Frequencies of related conditions\<close>

text \<open>The related-condition names of the entries matched by the phrases, in the order met.\<close>

definition matchedConditionNames :: "string list \<Rightarrow> string list" where
  "matchedConditionNames symptoms =
     concat (map (\<lambda>s. case findSymptomData s of None \<Rightarrow> [] | Some d \<Rightarrow> relatedConditions d)
       symptoms)"

text \<open>How many phrases match an entry that lists the name.\<close>

definition conditionFrequency :: "string list \<Rightarrow> string \<Rightarrow> nat" where
  "conditionFrequency symptoms c =
     length (filter (\<lambda>s. case findSymptomData s of None \<Rightarrow> False
                          | Some d \<Rightarrow> c \<in> set (relatedConditions d)) symptoms)"

text \<open>The distinct elements of a list, in the order of their first occurrences.\<close>

fun firstOccurrences :: "'a list \<Rightarrow> 'a list" where
  "firstOccurrences [] = []"
| "firstOccurrences (x # xs) = x # removeAll x (firstOccurrences xs)"

section \<open>Properties\<close>

subsection \<open>Substrings\<close>

lemma startsWith_iff: "startsWith s k \<longleftrightarrow> (\<exists>v. s = k @ v)"
  by (induction s k rule: startsWith.induct) auto

lemma str_includes_iff: "str_includes s k \<longleftrightarrow> (\<exists>u v. s = u @ k @ v)"
proof (induction s)
  case Nil
  then show ?case by auto
next
  case (Cons c cs)
  show ?case
  proof
    assume "str_includes (c # cs) k"
    then consider "startsWith (c # cs) k" | "str_includes cs k" by auto
    then show "\<exists>u v. c # cs = u @ k @ v"
    proof cases
      case 1
      then obtain v where "c # cs = k @ v" by (auto simp: startsWith_iff)
      then have "c # cs = [] @ k @ v" by simp
      then show ?thesis by blast
    next
      case 2
      then obtain u v where "cs = u @ k @ v" using Cons.IH by auto
      then have "c # cs = (c # u) @ k @ v" by simp
      then show ?thesis by blast
    qed
  next
    assume "\<exists>u v. c # cs = u @ k @ v"
    then obtain u v where uv: "c # cs = u @ k @ v" by auto
    show "str_includes (c # cs) k"
    proof (cases u)
      case Nil
      with uv have "startsWith (c # cs) k" by (auto simp: startsWith_iff)
      then show ?thesis by simp
    next
      case (Cons a u')
      with uv have "cs = u' @ k @ v" by simp
      then have "str_includes cs k" using Cons.IH by auto
      then show ?thesis by simp
    qed
  qed
qed

lemma some_includes_iff:
  "list_ex (\<lambda>s. str_includes s k) (map f ss) \<longleftrightarrow> (\<exists>s\<in>set ss. \<exists>u v. f s = u @ k @ v)"
  by (simp add: list_ex_iff str_includes_iff)

subsection \<open>The two branches of the classifier\<close>

lemma analyzeSymptoms_emergency:
  "checkEmergency (map normalizeSymptom ss) \<Longrightarrow>
   analyzeSymptoms ss hp h = generateEmergencyResponse (map normalizeSymptom ss)"
  by (simp add: analyzeSymptoms_def)

lemma analyzeSymptoms_regular:
  "\<not> checkEmergency (map normalizeSymptom ss) \<Longrightarrow>
   analyzeSymptoms ss hp h =
     \<lparr>severity = calculateSeverity (map normalizeSymptom ss) hp,
      emergencyDetected = False,
      identifiedSymptoms = map normalizeSymptom ss,
      possibleConditions = Some (identifyPossibleConditions (map normalizeSymptom ss)),
      urgentAction = None,
      emergencyNumber = None,
      recommendations =
        generateRecommendations (map normalizeSymptom ss) (calculateSeverity (map normalizeSymptom ss) hp) hp
          (identifyPossibleConditions (map normalizeSymptom ss)),
      disclaimer = getDisclaimer\<rparr>"
  by (simp add: analyzeSymptoms_def Let_def)

lemma emergencyDetected_iff:
  "emergencyDetected (analyzeSymptoms ss hp h) \<longleftrightarrow> checkEmergency (map normalizeSymptom ss)"
  by (cases "checkEmergency (map normalizeSymptom ss)")
     (simp_all add: analyzeSymptoms_emergency analyzeSymptoms_regular generateEmergencyResponse_def)

lemma checkEmergency_iff:
  "checkEmergency (map normalizeSymptom ss) \<longleftrightarrow>
     (\<exists>s\<in>set ss. \<exists>k\<in>set emergencySymptoms. \<exists>u v. normalizeSymptom s = u @ k @ v)"
  by (simp add: checkEmergency_def list_ex_iff str_includes_iff)

subsection \<open>The shape of the recommendation list\<close>

lemma blocks_generic:
  "(let r0 = [];
        r1 = (if sev = High then push (push (push r0 a1) a2) a3
              else if sev = Moderate then push (push r0 b1) b2
              else push (push r0 c1) c2);
        r2 = (if fev then push (push (push r1 f1) f2) f3 else r1);
        r3 = (if cou then push (push (push r2 g1) g2) g3 else r2)
    in case hp of
         None \<Rightarrow> r3
       | Some p \<Rightarrow>
           let r4 = (if (case knownConditions p of None \<Rightarrow> False | Some cs \<Rightarrow> length cs > 0)
                     then push (push r3 k1) k2 else r3);
               r5 = (if (case currentMedications p of None \<Rightarrow> False
                         | Some ms \<Rightarrow> length ms > 0)
                     then push (push r4 m1) m2 else r4)
           in r5) =
   (if sev = High then [a1, a2, a3] else if sev = Moderate then [b1, b2] else [c1, c2]) @
   (if fev then [f1, f2, f3] else []) @
   (if cou then [g1, g2, g3] else []) @
   (if hasKnownConditions hp then [k1, k2] else []) @
   (if hasCurrentMedications hp then [m1, m2] else [])"
  by (simp add: push_def Let_def hasKnownConditions_def hasCurrentMedications_def
      split: option.splits)

lemma generateRecommendations_blocks:
  "generateRecommendations symptoms sev hp conds =
     severityBlock sev @
     (if list_ex (\<lambda>s. str_includes s ''fever'') symptoms then feverBlock else []) @
     (if list_ex (\<lambda>s. str_includes s ''cough'') symptoms then coughBlock else []) @
     (if hasKnownConditions hp then conditionsBlock else []) @
     (if hasCurrentMedications hp then medicationsBlock else [])"
  unfolding generateRecommendations_def severityBlock_def feverBlock_def
      coughBlock_def conditionsBlock_def medicationsBlock_def
  by (rule blocks_generic)

lemma recommendations_regular:
  assumes "\<not> emergencyDetected (analyzeSymptoms ss hp h)"
  shows "recommendations (analyzeSymptoms ss hp h) =
     severityBlock (severity (analyzeSymptoms ss hp h)) @
     (if (\<exists>s\<in>set ss. \<exists>u v. normalizeSymptom s = u @ ''fever'' @ v) then feverBlock else []) @
     (if (\<exists>s\<in>set ss. \<exists>u v. normalizeSymptom s = u @ ''cough'' @ v) then coughBlock else []) @
     (if hasKnownConditions hp then conditionsBlock else []) @
     (if hasCurrentMedications hp then medicationsBlock else [])"
proof -
  have ne: "\<not> checkEmergency (map normalizeSymptom ss)"
    using assms by (simp add: emergencyDetected_iff)
  show ?thesis
    by (simp only: analyzeSymptoms_regular [OF ne] analysisResult.simps
        generateRecommendations_blocks some_includes_iff)
qed

subsection \<open>The severity score\<close>

lemma severityStep_inv:
  "severityStep x (m0, s0) = (m1, s1) \<Longrightarrow> (m0 = High \<longrightarrow> 3 \<le> s0) \<Longrightarrow> m0 \<noteq> Emergency \<Longrightarrow>
   (m1 = High \<longrightarrow> 3 \<le> s1) \<and> m1 \<noteq> Emergency"
  by (auto split: option.splits if_splits)

lemma fold_severityStep_inv:
  "fold severityStep xs (m0, s0) = (m, s) \<Longrightarrow> (m0 = High \<longrightarrow> 3 \<le> s0) \<Longrightarrow> m0 \<noteq> Emergency \<Longrightarrow>
   (m = High \<longrightarrow> 3 \<le> s) \<and> m \<noteq> Emergency"
proof (induction xs arbitrary: m0 s0)
  case Nil
  then show ?case by simp
next
  case (Cons x xs)
  obtain m1 s1 where step: "severityStep x (m0, s0) = (m1, s1)"
    by (cases "severityStep x (m0, s0)")
  have inv1: "(m1 = High \<longrightarrow> 3 \<le> s1) \<and> m1 \<noteq> Emergency"
    using severityStep_inv [OF step] Cons.prems(2,3) by blast
  have "fold severityStep xs (m1, s1) = (m, s)"
    using Cons.prems(1) step by simp
  then show ?case using Cons.IH inv1 by blast
qed

lemma calculateSeverity_not_Emergency: "calculateSeverity ns hp \<noteq> Emergency"
proof -
  obtain m s where f: "fold severityStep ns (Low, 0) = (m, s)"
    by (cases "fold severityStep ns (Low, 0)")
  have "m \<noteq> Emergency" using fold_severityStep_inv [OF f] by simp
  then show ?thesis by (simp add: calculateSeverity_def f Let_def)
qed

lemma severityStep_mono:
  "severityStep x (m0, s0) = (m1, s1) \<Longrightarrow> m0 \<noteq> Emergency \<Longrightarrow>
   s0 \<le> s1 \<and> tierRank m0 \<le> tierRank m1"
  by (cases m0) (auto split: option.splits if_splits)

lemma calculateSeverity_append_mono:
  "tierRank (calculateSeverity ns hp) \<le> tierRank (calculateSeverity (ns @ [q]) hp)"
proof -
  obtain m s where f: "fold severityStep ns (Low, 0) = (m, s)"
    by (cases "fold severityStep ns (Low, 0)")
  obtain m' s' where st: "severityStep q (m, s) = (m', s')"
    by (cases "severityStep q (m, s)")
  have g: "fold severityStep (ns @ [q]) (Low, 0) = (m', s')"
    by (simp only: fold_append fold.simps comp_def id_def f st)
  have inv: "(m = High \<longrightarrow> 3 \<le> s) \<and> m \<noteq> Emergency"
    using fold_severityStep_inv [OF f] by simp
  have inv': "(m' = High \<longrightarrow> 3 \<le> s') \<and> m' \<noteq> Emergency"
    using fold_severityStep_inv [OF g] by simp
  have mono: "s \<le> s' \<and> tierRank m \<le> tierRank m'"
    using severityStep_mono [OF st] inv by simp
  show ?thesis
    unfolding calculateSeverity_def f g
    using inv inv' mono by (cases m; cases m') (simp_all add: Let_def)
qed

lemma checkEmergency_append:
  "checkEmergency (xs @ ys) \<longleftrightarrow> checkEmergency xs \<or> checkEmergency ys"
  by (simp add: checkEmergency_def)

subsection \<open>The insertion-ordered map and the sort\<close>

lemma set_firstOccurrences: "set (firstOccurrences xs) = set xs"
  by (induction xs) auto

lemma distinct_firstOccurrences: "distinct (firstOccurrences xs)"
  by (induction xs) (auto simp: distinct_removeAll)

lemma firstOccurrences_snoc:
  "firstOccurrences (xs @ [x]) =
     (if x \<in> set xs then firstOccurrences xs else firstOccurrences xs @ [x])"
  by (induction xs) (auto simp: set_firstOccurrences)

lemma map_get_counts:
  "map_get (map (\<lambda>c. (c, f c)) L) x = (if x \<in> set L then Some (f x) else None)"
  by (induction L) auto

lemma map_set_absent:
  "x \<notin> set L \<Longrightarrow> map_set (map (\<lambda>c. (c, f c)) L) x v = map (\<lambda>c. (c, f c)) L @ [(x, v)]"
  by (induction L) auto

lemma map_set_present:
  "x \<in> set L \<Longrightarrow> distinct L \<Longrightarrow>
   map_set (map (\<lambda>c. (c, f c)) L) x v = map (\<lambda>c. (c, if c = x then v else f c)) L"
  by (induction L) auto

lemma countCondition_counts:
  "countCondition x (map (\<lambda>c. (c, count_list xs c)) (firstOccurrences xs)) =
     map (\<lambda>c. (c, count_list (xs @ [x]) c)) (firstOccurrences (xs @ [x]))"
proof (cases "x \<in> set xs")
  case True
  then show ?thesis
    by (simp add: countCondition_def map_get_counts set_firstOccurrences map_set_present
        distinct_firstOccurrences firstOccurrences_snoc)
next
  case False
  then show ?thesis
    by (auto simp add: countCondition_def map_get_counts set_firstOccurrences map_set_absent
        firstOccurrences_snoc count_list_0_iff)
qed

lemma fold_countCondition:
  "fold countCondition xs [] = map (\<lambda>c. (c, count_list xs c)) (firstOccurrences xs)"
proof (induction xs rule: rev_induct)
  case Nil
  then show ?case by simp
next
  case (snoc x xs)
  then show ?case by (simp add: countCondition_counts del: count_list.simps)
qed

lemma fold_countSymptom:
  "fold countSymptom ss m = fold countCondition (matchedConditionNames ss) m"
  by (induction ss arbitrary: m)
     (simp_all add: matchedConditionNames_def countSymptom_def split: option.splits)

lemma sortInsert_byFrequency:
  "sortInsert byFrequency x ys = insort_key (\<lambda>e. - int (snd e)) x ys"
  by (induction ys) (simp_all add: byFrequency_def)

lemma sortBy_byFrequency: "sortBy byFrequency xs = sort_key (\<lambda>e. - int (snd e)) xs"
proof -
  have "sortInsert byFrequency = insort_key (\<lambda>e. - int (snd e))"
    by (intro ext) (rule sortInsert_byFrequency)
  then show ?thesis by (simp add: sortBy_def sort_key_def)
qed

lemma insort_key_map_pair:
  "insort_key (\<lambda>e. - int (snd e)) (x, f x) (map (\<lambda>c. (c, f c)) ys) =
     map (\<lambda>c. (c, f c)) (insort_key (\<lambda>c. - int (f c)) x ys)"
  by (induction ys) simp_all

lemma sort_key_map_pair:
  "sort_key (\<lambda>e. - int (snd e)) (map (\<lambda>c. (c, f c)) L) =
     map (\<lambda>c. (c, f c)) (sort_key (\<lambda>c. - int (f c)) L)"
  by (induction L) (simp_all add: insort_key_map_pair)

lemma findIn_member: "findIn t s = Some d \<Longrightarrow> d \<in> snd ` set t"
  by (induction t s rule: findIn.induct) (auto split: if_splits)

lemma table_distinct: "\<forall>d \<in> snd ` set symptomDatabase. distinct (relatedConditions d)"
  by (simp add: symptomDatabase_def)

lemma found_distinct: "findSymptomData s = Some d \<Longrightarrow> distinct (relatedConditions d)"
  using findIn_member [of symptomDatabase s d] table_distinct
  by (auto simp: findSymptomData_def)

lemma count_list_distinct: "distinct xs \<Longrightarrow> count_list xs c = (if c \<in> set xs then 1 else 0)"
  by (induction xs) auto

lemma count_matchedConditionNames:
  "count_list (matchedConditionNames ss) c = conditionFrequency ss c"
proof (induction ss)
  case Nil
  then show ?case by (simp add: matchedConditionNames_def conditionFrequency_def)
next
  case (Cons s ss)
  have step: "count_list (matchedConditionNames (s # ss)) c =
      count_list (case findSymptomData s of None \<Rightarrow> [] | Some d \<Rightarrow> relatedConditions d) c
        + count_list (matchedConditionNames ss) c"
    by (simp add: matchedConditionNames_def)
  show ?case
  proof (cases "findSymptomData s")
    case None
    then show ?thesis using Cons.IH step by (simp add: conditionFrequency_def)
  next
    case (Some d)
    have "count_list (relatedConditions d) c = (if c \<in> set (relatedConditions d) then 1 else 0)"
      using found_distinct [OF Some] by (rule count_list_distinct)
    then show ?thesis using Cons.IH step Some by (simp add: conditionFrequency_def)
  qed
qed

lemma identifyPossibleConditions_sorted:
  "identifyPossibleConditions ns =
     take 5
       (map (\<lambda>c. \<lparr>condition = c,
                  likelihood = (if conditionFrequency ns c > 1 then LikelihoodHigh
                                else LikelihoodModerate)\<rparr>)
          (sort_key (\<lambda>c. - int (conditionFrequency ns c))
             (firstOccurrences (matchedConditionNames ns))))"
proof -
  have "fold countSymptom ns [] =
      map (\<lambda>c. (c, conditionFrequency ns c)) (firstOccurrences (matchedConditionNames ns))"
    by (simp add: fold_countSymptom fold_countCondition count_matchedConditionNames)
  then show ?thesis
    by (simp add: identifyPossibleConditions_def sortBy_byFrequency sort_key_map_pair
        toCondition_def comp_def)
qed

lemma length_identifyPossibleConditions:
  "length (identifyPossibleConditions ns) = min 5 (card (set (matchedConditionNames ns)))"
proof -
  have "card (set (matchedConditionNames ns)) = length (firstOccurrences (matchedConditionNames ns))"
    using distinct_card [OF distinct_firstOccurrences, of "matchedConditionNames ns"]
    by (simp add: set_firstOccurrences)
  then show ?thesis by (simp add: identifyPossibleConditions_sorted)
qed

lemma sorted_by_frequency:
  "sorted_wrt (\<lambda>a b. f b \<le> f a) (sort_key (\<lambda>c. - int (f c)) L)"
proof -
  have "sorted (map (\<lambda>c. - int (f c)) (sort_key (\<lambda>c. - int (f c)) L))"
    by (rule sorted_sort_key)
  then show ?thesis by (simp add: sorted_wrt_map)
qed

lemma identifyPossibleConditions_descending:
  "sorted_wrt (\<lambda>a b. conditionFrequency ns (condition b) \<le> conditionFrequency ns (condition a))
     (identifyPossibleConditions ns)"
proof -
  have "sorted_wrt (\<lambda>a b. conditionFrequency ns b \<le> conditionFrequency ns a)
      (take 5 (sort_key (\<lambda>c. - int (conditionFrequency ns c))
         (firstOccurrences (matchedConditionNames ns))))"
    by (rule sorted_wrt_take) (rule sorted_by_frequency)
  then show ?thesis
    by (simp add: identifyPossibleConditions_sorted take_map sorted_wrt_map)
qed

section \<open>The claims\<close>

text \<open>C1 (the code departs from it). A phrase that passes the keyword check and matches
  the entry of tier emergency should be classified as an emergency. The phrase
  \<open>consciousness\<close> passes the keyword check and matches that entry, and the classifier
  answers severity low: the callback's \<^verbatim>\<open>return 'emergency'\<close> only ends one
  iteration of \<^verbatim>\<open>forEach\<close>.\<close>

theorem C1_emergency_entry_classified_low:
  "\<not> checkEmergency (map normalizeSymptom [''consciousness'']) \<and>
   map_option entry_severity (findSymptomData (normalizeSymptom ''consciousness''))
     = Some Emergency \<and>
   severity (analyzeSymptoms [''consciousness''] (None :: (unit, unit) healthProfile option)
     ([] :: unit list)) = Low"
  by code_simp

text \<open>C2, as the claim states it, fails: the keyword \<open>chest pain\<close> contains the phrase
  \<open>chest\<close>, and the classifier answers severity moderate with the emergency flag
  false.\<close>

theorem C2_keyword_contains_phrase_counterexample:
  "str_includes ''chest pain'' (normalizeSymptom ''chest'') \<and>
   ''chest pain'' \<in> set emergencySymptoms \<and>
   severity (analyzeSymptoms [''chest''] (None :: (unit, unit) healthProfile option)
     ([] :: unit list)) = Moderate \<and>
   \<not> emergencyDetected (analyzeSymptoms [''chest''] (None :: (unit, unit) healthProfile option)
     ([] :: unit list))"
  by code_simp

text \<open>C2, amended: when some normalized phrase contains one of the emergency keywords as
  a substring, the classifier returns severity emergency, the emergency flag true, the
  fixed urgent-action and emergency-number strings, the fixed list of five actions, and no
  list of conditions.\<close>

theorem C2_phrase_contains_keyword_gives_emergency:
  assumes "s \<in> set ss" and "k \<in> set emergencySymptoms"
    and "normalizeSymptom s = u @ k @ v"
  shows "severity (analyzeSymptoms ss hp h) = Emergency \<and>
         emergencyDetected (analyzeSymptoms ss hp h) \<and>
         urgentAction (analyzeSymptoms ss hp h) = Some ''CALL EMERGENCY SERVICES IMMEDIATELY'' \<and>
         emergencyNumber (analyzeSymptoms ss hp h)
           = Some ''108 (India) or local emergency number'' \<and>
         recommendations (analyzeSymptoms ss hp h) =
           [sirenChar @
              '' Call emergency services (108) immediately'',
            ''Do not attempt to drive yourself'',
            ''Stay calm and follow dispatcher instructions'',
            ''Have someone stay with you until help arrives'',
            ''If alone, unlock your front door for emergency responders''] \<and>
         possibleConditions (analyzeSymptoms ss hp h) = None"
proof -
  have "checkEmergency (map normalizeSymptom ss)"
    unfolding checkEmergency_iff using assms by blast
  then have "analyzeSymptoms ss hp h = generateEmergencyResponse (map normalizeSymptom ss)"
    by (rule analyzeSymptoms_emergency)
  then show ?thesis by (simp add: generateEmergencyResponse_def)
qed

theorem C2_phrase_contains_keyword_witness:
  "''Sudden CHEST PAIN!'' \<in> set [''cough'', ''Sudden CHEST PAIN!''] \<and>
   ''chest pain'' \<in> set emergencySymptoms \<and>
   normalizeSymptom ''Sudden CHEST PAIN!'' = ''sudden '' @ ''chest pain'' @ ''!'' \<and>
   severity (analyzeSymptoms [''cough'', ''Sudden CHEST PAIN!'']
     (None :: (unit, unit) healthProfile option) ([] :: unit list)) = Emergency \<and>
   emergencyDetected (analyzeSymptoms [''cough'', ''Sudden CHEST PAIN!'']
     (None :: (unit, unit) healthProfile option) ([] :: unit list)) \<and>
   possibleConditions (analyzeSymptoms [''cough'', ''Sudden CHEST PAIN!'']
     (None :: (unit, unit) healthProfile option) ([] :: unit list)) = None"
proof -
  have a: "''Sudden CHEST PAIN!'' \<in> set [''cough'', ''Sudden CHEST PAIN!'']" by simp
  have b: "''chest pain'' \<in> set emergencySymptoms" by (simp add: emergencySymptoms_def)
  have c: "normalizeSymptom ''Sudden CHEST PAIN!'' = ''sudden '' @ ''chest pain'' @ ''!''"
    by code_simp
  show ?thesis
    using a b c C2_phrase_contains_keyword_gives_emergency [OF a b c,
        of "None :: (unit, unit) healthProfile option" "[] :: unit list"]
    by simp
qed

text \<open>C3: whenever the emergency flag of the result is true, its severity is emergency
  and the result is the fixed emergency response on the normalized phrases: no score, no
  condition list and no recommendation other than the fixed script enters it.\<close>

theorem C3_emergency_flag_implies_emergency_tier:
  assumes "emergencyDetected (analyzeSymptoms ss hp h)"
  shows "severity (analyzeSymptoms ss hp h) = Emergency \<and>
         analyzeSymptoms ss hp h = generateEmergencyResponse (map normalizeSymptom ss)"
  using assms
  by (simp add: emergencyDetected_iff analyzeSymptoms_emergency generateEmergencyResponse_def)

theorem C3_emergency_flag_witness:
  "emergencyDetected (analyzeSymptoms [''Severe Bleeding from a cut'']
     (Some \<lparr>age = Some 70, knownConditions = Some [()], currentMedications = Some [()]\<rparr>)
     ([] :: unit list)) \<and>
   severity (analyzeSymptoms [''Severe Bleeding from a cut'']
     (Some \<lparr>age = Some 70, knownConditions = Some [()], currentMedications = Some [()]\<rparr>)
     ([] :: unit list)) = Emergency \<and>
   analyzeSymptoms [''Severe Bleeding from a cut'']
     (Some \<lparr>age = Some 70, knownConditions = Some [()], currentMedications = Some [()]\<rparr>)
     ([] :: unit list)
     = generateEmergencyResponse (map normalizeSymptom [''Severe Bleeding from a cut''])"
proof -
  have a: "emergencyDetected (analyzeSymptoms [''Severe Bleeding from a cut'']
     (Some \<lparr>age = Some 70, knownConditions = Some [()], currentMedications = Some [()]\<rparr>)
     ([] :: unit list))"
    by code_simp
  show ?thesis
    by (rule conjI [OF a C3_emergency_flag_implies_emergency_tier [OF a]])
qed

text \<open>C4: on the empty symptom list with no health profile the classifier returns
  severity low, the emergency flag false, the empty list of conditions and the two
  recommendations of the low tier, whatever the history.\<close>

theorem C4_empty_symptom_list:
  "analyzeSymptoms [] None h =
     \<lparr>severity = Low,
      emergencyDetected = False,
      identifiedSymptoms = [],
      possibleConditions = Some [],
      urgentAction = None,
      emergencyNumber = None,
      recommendations =
        [''Monitor symptoms; they may resolve on their own'',
         ''Maintain proper rest and hydration''],
      disclaimer = getDisclaimer\<rparr>"
  by (simp add: analyzeSymptoms_def checkEmergency_def calculateSeverity_def
      profileAdjustment_def identifyPossibleConditions_def sortBy_def
      generateRecommendations_def push_def Let_def)

text \<open>C5, as the claim states it, fails: on the empty symptom list without a profile the
  tier is low, no other block applies, and the list has two strings, not three.\<close>

theorem C5_low_block_has_two_strings_counterexample:
  "\<not> emergencyDetected (analyzeSymptoms [] (None :: (unit, unit) healthProfile option)
      ([] :: unit list)) \<and>
   severity (analyzeSymptoms [] (None :: (unit, unit) healthProfile option)
      ([] :: unit list)) = Low \<and>
   recommendations (analyzeSymptoms [] (None :: (unit, unit) healthProfile option)
      ([] :: unit list)) =
     [''Monitor symptoms; they may resolve on their own'',
      ''Maintain proper rest and hydration''] \<and>
   length (recommendations (analyzeSymptoms [] (None :: (unit, unit) healthProfile option)
      ([] :: unit list))) \<noteq> 3"
  by code_simp

text \<open>C5, amended: in a result that is not an emergency, the recommendation list is the
  block of the severity tier (three fixed strings for high, two for moderate, two for
  low), then the three fever strings when some normalized phrase contains \<open>fever\<close>, then
  the three cough strings when some normalized phrase contains \<open>cough\<close>, then two fixed
  strings when the profile's list of known conditions is non-empty, then two fixed strings
  when its list of medications is non-empty, in that order.\<close>

theorem C5_recommendation_blocks:
  assumes "\<not> emergencyDetected (analyzeSymptoms ss hp h)"
  shows "recommendations (analyzeSymptoms ss hp h) =
     severityBlock (severity (analyzeSymptoms ss hp h)) @
     (if (\<exists>s\<in>set ss. \<exists>u v. normalizeSymptom s = u @ ''fever'' @ v) then feverBlock else []) @
     (if (\<exists>s\<in>set ss. \<exists>u v. normalizeSymptom s = u @ ''cough'' @ v) then coughBlock else []) @
     (if hasKnownConditions hp then conditionsBlock else []) @
     (if hasCurrentMedications hp then medicationsBlock else []) \<and>
   length (severityBlock High) = 3 \<and> length (severityBlock Moderate) = 2 \<and>
   length (severityBlock Low) = 2 \<and> length feverBlock = 3 \<and> length coughBlock = 3 \<and>
   length conditionsBlock = 2 \<and> length medicationsBlock = 2"
proof -
  have "length (severityBlock High) = 3 \<and> length (severityBlock Moderate) = 2 \<and>
   length (severityBlock Low) = 2 \<and> length feverBlock = 3 \<and> length coughBlock = 3 \<and>
   length conditionsBlock = 2 \<and> length medicationsBlock = 2"
    by (simp add: severityBlock_def feverBlock_def coughBlock_def conditionsBlock_def
        medicationsBlock_def)
  then show ?thesis using recommendations_regular [OF assms] by blast
qed

theorem C5_recommendation_blocks_witness:
  "\<not> emergencyDetected (analyzeSymptoms [''Mild FEVER'', ''dry cough '']
      (Some \<lparr>age = Some 30, knownConditions = Some [()], currentMedications = Some [()]\<rparr>)
      ([] :: unit list)) \<and>
   recommendations (analyzeSymptoms [''Mild FEVER'', ''dry cough '']
      (Some \<lparr>age = Some 30, knownConditions = Some [()], currentMedications = Some [()]\<rparr>)
      ([] :: unit list)) =
     [''Consider scheduling a doctor appointment'',
      ''Track your symptoms over the next few days'',
      ''Stay hydrated and rest'',
      ''Take temperature regularly'',
      ''Use over-the-counter fever reducers if needed'',
      ''Stay hydrated with warm fluids'',
      ''Use a humidifier if available'',
      ''Avoid irritants like smoke'',
      ''Consider how symptoms may relate to your known conditions'',
      ''Contact your regular healthcare provider'',
      ''Check for potential drug interactions'',
      ''Consult pharmacist if taking new medications''] \<and>
   (recommendations (analyzeSymptoms [''Mild FEVER'', ''dry cough '']
      (Some \<lparr>age = Some 30, knownConditions = Some [()], currentMedications = Some [()]\<rparr>)
      ([] :: unit list)) =
     severityBlock (severity (analyzeSymptoms [''Mild FEVER'', ''dry cough '']
      (Some \<lparr>age = Some 30, knownConditions = Some [()], currentMedications = Some [()]\<rparr>)
      ([] :: unit list))) @
     (if (\<exists>s\<in>set [''Mild FEVER'', ''dry cough '']. \<exists>u v. normalizeSymptom s = u @ ''fever'' @ v)
      then feverBlock else []) @
     (if (\<exists>s\<in>set [''Mild FEVER'', ''dry cough '']. \<exists>u v. normalizeSymptom s = u @ ''cough'' @ v)
      then coughBlock else []) @
     (if hasKnownConditions
           (Some \<lparr>age = Some 30, knownConditions = Some [()], currentMedications = Some [()]\<rparr>)
      then conditionsBlock else []) @
     (if hasCurrentMedications
           (Some \<lparr>age = Some (30::int), knownConditions = Some [()], currentMedications = Some [()]\<rparr>)
      then medicationsBlock else []) \<and>
   length (severityBlock High) = 3 \<and> length (severityBlock Moderate) = 2 \<and>
   length (severityBlock Low) = 2 \<and> length feverBlock = 3 \<and> length coughBlock = 3 \<and>
   length conditionsBlock = 2 \<and> length medicationsBlock = 2)"
proof -
  have a: "\<not> emergencyDetected (analyzeSymptoms [''Mild FEVER'', ''dry cough '']
      (Some \<lparr>age = Some 30, knownConditions = Some [()], currentMedications = Some [()]\<rparr>)
      ([] :: unit list))"
    by code_simp
  have b: "recommendations (analyzeSymptoms [''Mild FEVER'', ''dry cough '']
      (Some \<lparr>age = Some 30, knownConditions = Some [()], currentMedications = Some [()]\<rparr>)
      ([] :: unit list)) =
     [''Consider scheduling a doctor appointment'',
      ''Track your symptoms over the next few days'',
      ''Stay hydrated and rest'',
      ''Take temperature regularly'',
      ''Use over-the-counter fever reducers if needed'',
      ''Stay hydrated with warm fluids'',
      ''Use a humidifier if available'',
      ''Avoid irritants like smoke'',
      ''Consider how symptoms may relate to your known conditions'',
      ''Contact your regular healthcare provider'',
      ''Check for potential drug interactions'',
      ''Consult pharmacist if taking new medications'']"
    by code_simp
  show ?thesis
    by (rule conjI [OF a conjI [OF b C5_recommendation_blocks [OF a]]])
qed

text \<open>C6: in a result that is not an emergency, the condition list is made of the names
  listed by the entries that the normalized phrases match, each with its frequency (the
  number of phrases whose matched entry lists it); the names are taken in the order of
  first occurrence and sorted by descending frequency with a stable sort
  (\<^const>\<open>sort_key\<close>), so that ties keep the order of first occurrence; the first five
  are kept, which is all of them when there are at most five distinct names and exactly
  five otherwise; the likelihood is high for a frequency above 1 and moderate
  otherwise.\<close>

theorem C6_condition_aggregation:
  assumes "\<not> emergencyDetected (analyzeSymptoms ss hp h)"
  shows "\<exists>conds.
      possibleConditions (analyzeSymptoms ss hp h) = Some conds \<and>
      conds =
        take 5
          (map (\<lambda>c. \<lparr>condition = c,
                     likelihood =
                       (if conditionFrequency (map normalizeSymptom ss) c > 1
                        then LikelihoodHigh else LikelihoodModerate)\<rparr>)
             (sort_key (\<lambda>c. - int (conditionFrequency (map normalizeSymptom ss) c))
                (firstOccurrences (matchedConditionNames (map normalizeSymptom ss))))) \<and>
      length conds = min 5 (card (set (matchedConditionNames (map normalizeSymptom ss)))) \<and>
      sorted_wrt
        (\<lambda>a b. conditionFrequency (map normalizeSymptom ss) (condition b)
                 \<le> conditionFrequency (map normalizeSymptom ss) (condition a))
        conds"
proof -
  have ne: "\<not> checkEmergency (map normalizeSymptom ss)"
    using assms by (simp add: emergencyDetected_iff)
  have "possibleConditions (analyzeSymptoms ss hp h)
      = Some (identifyPossibleConditions (map normalizeSymptom ss))"
    by (simp add: analyzeSymptoms_regular [OF ne])
  moreover note identifyPossibleConditions_sorted [of "map normalizeSymptom ss"]
    length_identifyPossibleConditions [of "map normalizeSymptom ss"]
    identifyPossibleConditions_descending [of "map normalizeSymptom ss"]
  ultimately show ?thesis by metis
qed

theorem C6_condition_aggregation_witness:
  "\<not> emergencyDetected (analyzeSymptoms [''Fever'', ''body aches'', '' Cough '', ''fever'']
      (None :: (unit, unit) healthProfile option) ([] :: unit list)) \<and>
   possibleConditions (analyzeSymptoms [''Fever'', ''body aches'', '' Cough '', ''fever'']
      (None :: (unit, unit) healthProfile option) ([] :: unit list)) =
     Some [\<lparr>condition = ''flu'', likelihood = LikelihoodHigh\<rparr>,
           \<lparr>condition = ''infection'', likelihood = LikelihoodHigh\<rparr>,
           \<lparr>condition = ''viral illness'', likelihood = LikelihoodHigh\<rparr>,
           \<lparr>condition = ''viral infection'', likelihood = LikelihoodModerate\<rparr>,
           \<lparr>condition = ''fibromyalgia'', likelihood = LikelihoodModerate\<rparr>] \<and>
   (\<exists>conds.
      possibleConditions (analyzeSymptoms [''Fever'', ''body aches'', '' Cough '', ''fever'']
        (None :: (unit, unit) healthProfile option) ([] :: unit list)) = Some conds \<and>
      conds =
        take 5
          (map (\<lambda>c. \<lparr>condition = c,
                     likelihood =
                       (if conditionFrequency
                             (map normalizeSymptom [''Fever'', ''body aches'', '' Cough '', ''fever'']) c > 1
                        then LikelihoodHigh else LikelihoodModerate)\<rparr>)
             (sort_key (\<lambda>c. - int (conditionFrequency
                             (map normalizeSymptom [''Fever'', ''body aches'', '' Cough '', ''fever'']) c))
                (firstOccurrences (matchedConditionNames
                   (map normalizeSymptom [''Fever'', ''body aches'', '' Cough '', ''fever'']))))) \<and>
      length conds = min 5 (card (set (matchedConditionNames
         (map normalizeSymptom [''Fever'', ''body aches'', '' Cough '', ''fever''])))) \<and>
      sorted_wrt
        (\<lambda>a b. conditionFrequency
                  (map normalizeSymptom [''Fever'', ''body aches'', '' Cough '', ''fever'']) (condition b)
                 \<le> conditionFrequency
                  (map normalizeSymptom [''Fever'', ''body aches'', '' Cough '', ''fever'']) (condition a))
        conds)"
proof -
  have a: "\<not> emergencyDetected (analyzeSymptoms [''Fever'', ''body aches'', '' Cough '', ''fever'']
      (None :: (unit, unit) healthProfile option) ([] :: unit list))"
    by code_simp
  have b: "possibleConditions (analyzeSymptoms [''Fever'', ''body aches'', '' Cough '', ''fever'']
      (None :: (unit, unit) healthProfile option) ([] :: unit list)) =
     Some [\<lparr>condition = ''flu'', likelihood = LikelihoodHigh\<rparr>,
           \<lparr>condition = ''infection'', likelihood = LikelihoodHigh\<rparr>,
           \<lparr>condition = ''viral illness'', likelihood = LikelihoodHigh\<rparr>,
           \<lparr>condition = ''viral infection'', likelihood = LikelihoodModerate\<rparr>,
           \<lparr>condition = ''fibromyalgia'', likelihood = LikelihoodModerate\<rparr>]"
    by code_simp
  show ?thesis
    by (intro conjI a b C6_condition_aggregation [OF a])
qed

text \<open>C7: appending a phrase whose normalized form matches an entry of tier high (the
  key is included in the phrase, or includes it) never lowers the severity of the result,
  in the order low < moderate < high < emergency.\<close>

theorem C7_append_high_phrase_monotone:
  assumes "(key, d) \<in> set symptomDatabase" and "entry_severity d = High"
    and "str_includes (normalizeSymptom p) key \<or> str_includes key (normalizeSymptom p)"
  shows "tierRank (severity (analyzeSymptoms ss hp h))
           \<le> tierRank (severity (analyzeSymptoms (ss @ [p]) hp h))"
proof (cases "checkEmergency (map normalizeSymptom (ss @ [p]))")
  case True
  then have "severity (analyzeSymptoms (ss @ [p]) hp h) = Emergency"
    by (simp add: analyzeSymptoms_emergency generateEmergencyResponse_def)
  then show ?thesis by (cases "severity (analyzeSymptoms ss hp h)") simp_all
next
  case False
  then have ne: "\<not> checkEmergency (map normalizeSymptom ss)"
    by (simp add: checkEmergency_append)
  have "severity (analyzeSymptoms ss hp h) = calculateSeverity (map normalizeSymptom ss) hp"
    using ne by (simp add: analyzeSymptoms_regular)
  moreover have "severity (analyzeSymptoms (ss @ [p]) hp h) =
      calculateSeverity (map normalizeSymptom ss @ [normalizeSymptom p]) hp"
    using False by (simp add: analyzeSymptoms_regular)
  ultimately show ?thesis
    using calculateSeverity_append_mono by simp
qed

theorem C7_append_high_phrase_witness:
  "(''chest pain'',
     \<lparr>categories = [''cardiovascular''], entry_severity = High, emergency = True,
      relatedConditions = [''heart attack'', ''angina'', ''pulmonary embolism'']\<rparr>)
     \<in> set symptomDatabase \<and>
   entry_severity
     \<lparr>categories = [''cardiovascular''], entry_severity = High, emergency = True,
      relatedConditions = [''heart attack'', ''angina'', ''pulmonary embolism'']\<rparr> = High \<and>
   (str_includes (normalizeSymptom ''Chest'') ''chest pain'' \<or>
    str_includes ''chest pain'' (normalizeSymptom ''Chest'')) \<and>
   severity (analyzeSymptoms [''fever''] (None :: (unit, unit) healthProfile option)
     ([] :: unit list)) = Moderate \<and>
   severity (analyzeSymptoms ([''fever''] @ [''Chest''])
     (None :: (unit, unit) healthProfile option) ([] :: unit list)) = High \<and>
   tierRank (severity (analyzeSymptoms [''fever''] (None :: (unit, unit) healthProfile option)
       ([] :: unit list)))
     \<le> tierRank (severity (analyzeSymptoms ([''fever''] @ [''Chest''])
       (None :: (unit, unit) healthProfile option) ([] :: unit list)))"
proof -
  have d: "(''chest pain'',
     \<lparr>categories = [''cardiovascular''], entry_severity = High, emergency = True,
      relatedConditions = [''heart attack'', ''angina'', ''pulmonary embolism'']\<rparr>)
     \<in> set symptomDatabase"
    by (simp add: symptomDatabase_def)
  have e: "entry_severity
     \<lparr>categories = [''cardiovascular''], entry_severity = High, emergency = True,
      relatedConditions = [''heart attack'', ''angina'', ''pulmonary embolism'']\<rparr> = High"
    by simp
  have m: "str_includes (normalizeSymptom ''Chest'') ''chest pain'' \<or>
    str_includes ''chest pain'' (normalizeSymptom ''Chest'')"
    by code_simp
  have a: "severity (analyzeSymptoms [''fever''] (None :: (unit, unit) healthProfile option)
     ([] :: unit list)) = Moderate"
    by code_simp
  have b: "severity (analyzeSymptoms ([''fever''] @ [''Chest''])
     (None :: (unit, unit) healthProfile option) ([] :: unit list)) = High"
    by code_simp
  show ?thesis
    by (intro conjI d e m a b C7_append_high_phrase_monotone [OF d e m])
qed

text \<open>C8, as the claim states it, fails: with the phrases \<open>fever\<close> and \<open>chest pain\<close> the
  result is the emergency response, and no fever string is in its recommendation list.\<close>

theorem C8_fever_in_emergency_counterexample:
  "str_includes (normalizeSymptom ''fever'') ''fever'' \<and>
   severity (analyzeSymptoms [''fever'', ''chest pain'']
     (None :: (unit, unit) healthProfile option) ([] :: unit list)) = Emergency \<and>
   ''Stay hydrated and rest'' \<notin> set (recommendations (analyzeSymptoms [''fever'', ''chest pain'']
     (None :: (unit, unit) healthProfile option) ([] :: unit list))) \<and>
   ''Take temperature regularly'' \<notin> set (recommendations (analyzeSymptoms [''fever'', ''chest pain'']
     (None :: (unit, unit) healthProfile option) ([] :: unit list))) \<and>
   ''Use over-the-counter fever reducers if needed''
      \<notin> set (recommendations (analyzeSymptoms [''fever'', ''chest pain'']
     (None :: (unit, unit) healthProfile option) ([] :: unit list)))"
  by code_simp

text \<open>C8, amended: in a result that is not an emergency, when some normalized phrase
  contains \<open>fever\<close> the recommendation list contains the three fever strings (next to
  each other and in their order), whatever the tier; likewise for \<open>cough\<close> and the three
  cough strings.\<close>

theorem C8_fever_cough_blocks:
  assumes "\<not> emergencyDetected (analyzeSymptoms ss hp h)"
  shows "((\<exists>s\<in>set ss. \<exists>u v. normalizeSymptom s = u @ ''fever'' @ v) \<longrightarrow>
            sublist [''Stay hydrated and rest'', ''Take temperature regularly'',
                     ''Use over-the-counter fever reducers if needed'']
              (recommendations (analyzeSymptoms ss hp h)) \<and>
            set feverBlock \<subseteq> set (recommendations (analyzeSymptoms ss hp h))) \<and>
         ((\<exists>s\<in>set ss. \<exists>u v. normalizeSymptom s = u @ ''cough'' @ v) \<longrightarrow>
            sublist [''Stay hydrated with warm fluids'', ''Use a humidifier if available'',
                     ''Avoid irritants like smoke'']
              (recommendations (analyzeSymptoms ss hp h)) \<and>
            set coughBlock \<subseteq> set (recommendations (analyzeSymptoms ss hp h)))"
proof (intro conjI impI)
  assume f: "\<exists>s\<in>set ss. \<exists>u v. normalizeSymptom s = u @ ''fever'' @ v"
  have "recommendations (analyzeSymptoms ss hp h) =
      severityBlock (severity (analyzeSymptoms ss hp h)) @ feverBlock @
      ((if (\<exists>s\<in>set ss. \<exists>u v. normalizeSymptom s = u @ ''cough'' @ v) then coughBlock else []) @
       (if hasKnownConditions hp then conditionsBlock else []) @
       (if hasCurrentMedications hp then medicationsBlock else []))"
    using recommendations_regular [OF assms] f by simp
  then have s: "sublist feverBlock (recommendations (analyzeSymptoms ss hp h))"
    unfolding sublist_def by blast
  then show "sublist [''Stay hydrated and rest'', ''Take temperature regularly'',
                     ''Use over-the-counter fever reducers if needed'']
              (recommendations (analyzeSymptoms ss hp h))"
    by (simp only: feverBlock_def)
  show "set feverBlock \<subseteq> set (recommendations (analyzeSymptoms ss hp h))"
    using s by (rule set_mono_sublist)
next
  assume c: "\<exists>s\<in>set ss. \<exists>u v. normalizeSymptom s = u @ ''cough'' @ v"
  have "recommendations (analyzeSymptoms ss hp h) =
      (severityBlock (severity (analyzeSymptoms ss hp h)) @
       (if (\<exists>s\<in>set ss. \<exists>u v. normalizeSymptom s = u @ ''fever'' @ v) then feverBlock else []))
      @ coughBlock @
      ((if hasKnownConditions hp then conditionsBlock else []) @
       (if hasCurrentMedications hp then medicationsBlock else []))"
    using recommendations_regular [OF assms] c by simp
  then have s: "sublist coughBlock (recommendations (analyzeSymptoms ss hp h))"
    unfolding sublist_def by blast
  then show "sublist [''Stay hydrated with warm fluids'', ''Use a humidifier if available'',
                     ''Avoid irritants like smoke'']
              (recommendations (analyzeSymptoms ss hp h))"
    by (simp only: coughBlock_def)
  show "set coughBlock \<subseteq> set (recommendations (analyzeSymptoms ss hp h))"
    using s by (rule set_mono_sublist)
qed

theorem C8_fever_cough_blocks_witness:
  "\<not> emergencyDetected (analyzeSymptoms [''High FEVER'', ''dry cough'']
      (None :: (unit, unit) healthProfile option) ([] :: unit list)) \<and>
   normalizeSymptom ''High FEVER'' = ''high '' @ ''fever'' @ [] \<and>
   normalizeSymptom ''dry cough'' = ''dry '' @ ''cough'' @ [] \<and>
   sublist [''Stay hydrated and rest'', ''Take temperature regularly'',
            ''Use over-the-counter fever reducers if needed'']
     (recommendations (analyzeSymptoms [''High FEVER'', ''dry cough'']
        (None :: (unit, unit) healthProfile option) ([] :: unit list))) \<and>
   sublist [''Stay hydrated with warm fluids'', ''Use a humidifier if available'',
            ''Avoid irritants like smoke'']
     (recommendations (analyzeSymptoms [''High FEVER'', ''dry cough'']
        (None :: (unit, unit) healthProfile option) ([] :: unit list)))"
proof -
  have a: "\<not> emergencyDetected (analyzeSymptoms [''High FEVER'', ''dry cough'']
      (None :: (unit, unit) healthProfile option) ([] :: unit list))"
    by code_simp
  have f: "normalizeSymptom ''High FEVER'' = ''high '' @ ''fever'' @ []" by code_simp
  have c: "normalizeSymptom ''dry cough'' = ''dry '' @ ''cough'' @ []" by code_simp
  have ef: "\<exists>s\<in>set [''High FEVER'', ''dry cough'']. \<exists>u v. normalizeSymptom s = u @ ''fever'' @ v"
    using f by (intro bexI [of _ "''High FEVER''"] exI [of _ "''high ''"] exI [of _ "[]"]) simp_all
  have ec: "\<exists>s\<in>set [''High FEVER'', ''dry cough'']. \<exists>u v. normalizeSymptom s = u @ ''cough'' @ v"
    using c by (intro bexI [of _ "''dry cough''"] exI [of _ "''dry ''"] exI [of _ "[]"]) simp_all
  show ?thesis
    using C8_fever_cough_blocks [OF a] ef ec a f c by blast
qed

text \<open>C9: the caller's extraction returns the members of the vocabulary of ten words
  that occur as substrings of the lowercased message, in the order of the vocabulary.\<close>

theorem C9_extractSymptoms_vocabulary:
  "extractSymptoms message =
     filter (\<lambda>s. \<exists>u v. toLowerCase message = u @ s @ v)
       [''fever'', ''headache'', ''pain'', ''cough'', ''nausea'', ''vomiting'', ''dizzy'',
        ''tired'', ''chest pain'', ''rash'']"
  by (simp only: extractSymptoms_def commonSymptoms_def str_includes_iff)

text \<open>C10: two calls that differ only in the conversation history return the same
  result.\<close>

theorem C10_history_noninterference:
  "analyzeSymptoms ss hp h1 = analyzeSymptoms ss hp h2"
  by (simp add: analyzeSymptoms_def)

end
